theory Spec2Isabelle
  imports Complex_Main "HOL-Library.Stream"
begin

section \<open>Buffon's needle: the Monte Carlo core of buffon\_montecarlo.py\<close>

text \<open>
  Python floats are idealised as the reals: rounding, overflow and NaN are not modelled.
  The one non-finite float the program creates itself, \<^verbatim>\<open>float("inf")\<close>, is a value of
  its own. Exceptions are values of a sum type, \<open>Inl\<close> the exception.
\<close>

datatype error = ValueError string | ZeroDivisionError

datatype py_float = Finite real | PosInf

subsection \<open>Python's float modulo\<close>

text \<open>
  CPython computes \<^verbatim>\<open>v % w\<close> on floats as C's \<^verbatim>\<open>fmod\<close> (the quotient truncated
  towards zero, so the remainder has the sign of \<open>v\<close>), and then adds \<open>w\<close> when the
  remainder is non-zero and its sign differs from the sign of \<open>w\<close>. A zero divisor raises
  \<^verbatim>\<open>ZeroDivisionError\<close>. Over the reals the result lies strictly between \<open>0\<close> and \<open>w\<close>
  or is \<open>0\<close>; the float sum \<open>m + w\<close> can round to \<open>w\<close> itself when \<open>m\<close> is tiny, which
  the idealisation leaves out.
\<close>

definition trunc :: "real \<Rightarrow> int" where
  "trunc r = (if 0 \<le> r then \<lfloor>r\<rfloor> else \<lceil>r\<rceil>)"

definition fmod :: "real \<Rightarrow> real \<Rightarrow> real" where
  "fmod v w = v - w * of_int (trunc (v / w))"

definition float_mod :: "real \<Rightarrow> real \<Rightarrow> error + real" where
  "float_mod v w =
     (if w = 0 then Inl ZeroDivisionError
      else let m = fmod v w
           in Inr (if m \<noteq> 0 \<and> ((w < 0) \<noteq> (m < 0)) then m + w else m))"

subsection \<open>The estimator\<close>

text \<open>
  \<^verbatim>\<open>
  def estimate_pi(crosses, total, L, t):
      if crosses == 0:
          return float("inf")
      return (2 * L * total) / (crosses * t)
  \<close>
  The float division raises \<^verbatim>\<open>ZeroDivisionError\<close> when \<open>crosses * t\<close> is zero.
\<close>

definition estimate_pi :: "int \<Rightarrow> int \<Rightarrow> real \<Rightarrow> real \<Rightarrow> error + py_float" where
  "estimate_pi crossings total' L t =
     (if crossings = 0 then Inr PosInf
      else if of_int crossings * t = 0 then Inl ZeroDivisionError
      else Inr (Finite ((2 * L * of_int total') / (of_int crossings * t))))"

subsection \<open>The sampler\<close>

text \<open>
  The generator is the stream of the values its \<^verbatim>\<open>random()\<close> will return, each in
  \<open>[0, 1)\<close>; \<^verbatim>\<open>uniform(a, b)\<close> is \<^verbatim>\<open>a + (b - a) * self.random()\<close> and consumes one.
\<close>

type_synonym Random = "real stream"

definition well_formed_rng :: "Random \<Rightarrow> bool" where
  "well_formed_rng rng = (\<forall>n. 0 \<le> rng !! n \<and> rng !! n < 1)"

definition uniform :: "real \<Rightarrow> real \<Rightarrow> Random \<Rightarrow> real \<times> Random" where
  "uniform a b rng = (a + (b - a) * shd rng, stl rng)"

text \<open>
  The dataclass \<^verbatim>\<open>Needle(x, y, theta, crosses)\<close>; the fields carry the prefix \<open>nd_\<close>
  because a selector is a global constant.
\<close>

record Needle =
  nd_x :: real
  nd_y :: real
  nd_theta :: real
  nd_crosses :: bool

text \<open>
  \<^verbatim>\<open>
  def drop_one_needle(L, t, xlim, ylim, rng):
      x = rng.uniform(xlim[0] + L/2, xlim[1] - L/2)
      y = rng.uniform(ylim[0] + t/2, ylim[1] - t/2)
      theta = rng.uniform(0, math.pi)
      d_to_line = min((y % t), t - (y % t))
      crosses = (L/2) * math.sin(theta) >= d_to_line
      return Needle(x, y, theta, crosses)
  \<close>
  The result is paired with the generator as the three draws leave it.
\<close>

definition drop_one_needle ::
  "real \<Rightarrow> real \<Rightarrow> real \<times> real \<Rightarrow> real \<times> real \<Rightarrow> Random \<Rightarrow> (error + Needle) \<times> Random" where
  "drop_one_needle L t xlim ylim rng =
     (let (x, rng1) = uniform (fst xlim + L / 2) (snd xlim - L / 2) rng;
          (y, rng2) = uniform (fst ylim + t / 2) (snd ylim - t / 2) rng1;
          (theta, rng3) = uniform 0 pi rng2
      in case float_mod y t of
           Inl e \<Rightarrow> (Inl e, rng3)
         | Inr m \<Rightarrow>
             (let d_to_line = min m (t - m);
                  crosses = ((L / 2) * sin theta \<ge> d_to_line)
              in (Inr \<lparr>nd_x = x, nd_y = y, nd_theta = theta, nd_crosses = crosses\<rparr>, rng3)))"

text \<open>
  The rule as the specification words it: the offset of the centre from the nearest line
  below it is \<open>y mod t\<close>, the distance to the nearest line is the smaller of the offset
  and \<open>t\<close> minus the offset, and the needle crosses when half its vertical extent reaches
  that distance.
\<close>

definition spec_offset :: "real \<Rightarrow> real \<Rightarrow> real" where
  "spec_offset y' t = y' - t * of_int \<lfloor>y' / t\<rfloor>"

definition spec_crosses :: "real \<Rightarrow> real \<Rightarrow> real \<Rightarrow> real \<Rightarrow> bool" where
  "spec_crosses L t y' theta' =
     ((L / 2) * sin theta' \<ge> min (spec_offset y' t) (t - spec_offset y' t))"

subsection \<open>Visualisation helpers\<close>

text \<open>
  Of the figure, the model keeps what the program puts into it: the limits, the title, the
  heights of the grid lines and the needles plotted so far.
  \<^verbatim>\<open>
  def make_base_figure(xlim, ylim, t, title):
      ...
      for k in range(int(np.floor(ylim[0]/t))-1, int(np.ceil(ylim[1]/t))+2):
          ax.axhline(k * t, lw=1, alpha=0.3)
      return fig, ax
  \<close>
  The division \<^verbatim>\<open>ylim[0]/t\<close> raises \<^verbatim>\<open>ZeroDivisionError\<close> at \<open>t = 0\<close>.
\<close>

record Line2D =
  xdata :: "real list"
  ydata :: "real list"
  color :: string

record Axes =
  ax_xlim :: "real \<times> real"
  ax_ylim :: "real \<times> real"
  ax_title :: string
  ax_hlines :: "real list"
  ax_lines :: "Line2D list"

definition make_base_figure :: "real \<times> real \<Rightarrow> real \<times> real \<Rightarrow> real \<Rightarrow> string \<Rightarrow> error + Axes" where
  "make_base_figure xlim ylim t title =
     (if t = 0 then Inl ZeroDivisionError
      else Inr \<lparr>ax_xlim = xlim, ax_ylim = ylim, ax_title = title,
                ax_hlines = map (\<lambda>k. of_int k * t) [\<lfloor>fst ylim / t\<rfloor> - 1 .. \<lceil>snd ylim / t\<rceil> + 2 - 1],
                ax_lines = []\<rparr>)"

text \<open>
  \<^verbatim>\<open>
  def draw_needle(ax, nd, L):
      dx, dy = (L/2)*np.cos(nd.theta), (L/2)*np.sin(nd.theta)
      x0, x1 = nd.x - dx, nd.x + dx
      y0, y1 = nd.y - dy, nd.y + dy
      color = "red" if nd.crosses else "blue"
      (ln,) = ax.plot([x0, x1], [y0, y1], lw=1.2, alpha=0.9, color=color)
      return ln
  \<close>
  \<^verbatim>\<open>ax.plot\<close> adds the line to the axes, so the axes are returned with it.
\<close>

definition draw_needle :: "Axes \<Rightarrow> Needle \<Rightarrow> real \<Rightarrow> Line2D \<times> Axes" where
  "draw_needle ax nd L =
     (let dx = (L / 2) * cos (nd_theta nd); dy = (L / 2) * sin (nd_theta nd);
          x0 = nd_x nd - dx; x1 = nd_x nd + dx;
          y0 = nd_y nd - dy; y1 = nd_y nd + dy;
          ln = \<lparr>xdata = [x0, x1], ydata = [y0, y1],
                color = (if nd_crosses nd then ''red'' else ''blue'')\<rparr>
      in (ln, ax\<lparr>ax_lines := ax_lines ax @ [ln]\<rparr>))"

subsection \<open>The driver\<close>

text \<open>
  What the closure \<^verbatim>\<open>update\<close> reads and writes: the dictionary
  \<^verbatim>\<open>state = {"i": 0, "crosses": 0}\<close>, the generator, the axes and the two text
  overlays. An overlay is kept as the values formatted into it, \<open>None\<close> for the empty text.
\<close>

record Sim =
  state_i :: int
  state_crosses :: int
  sim_rng :: Random
  sim_ax :: Axes
  text_pi :: "py_float option"
  text_counts :: "(int \<times> int) option"

text \<open>
  \<^verbatim>\<open>
  def update(_):
      state["i"] += 1
      nd = drop_one_needle(L, t, xlim, ylim, rng)
      if nd.crosses:
          state["crosses"] += 1
      ln = draw_needle(ax, nd, L)
      pi_hat = estimate_pi(state["crosses"], state["i"], L, t)
      text_pi.set_text(...pi_hat...)
      text_counts.set_text(...state['i']...state['crosses']...)
      return [ln, text_pi, text_counts]
  \<close>
  The result is the simulation as the call leaves it, with the exception if one was raised.
\<close>

definition update :: "real \<Rightarrow> real \<Rightarrow> real \<times> real \<Rightarrow> real \<times> real \<Rightarrow> Sim \<Rightarrow> Sim \<times> error option" where
  "update L t xlim ylim s =
     (let s1 = s\<lparr>state_i := state_i s + 1\<rparr>
      in case drop_one_needle L t xlim ylim (sim_rng s1) of
           (Inl e, rng') \<Rightarrow> (s1\<lparr>sim_rng := rng'\<rparr>, Some e)
         | (Inr nd, rng') \<Rightarrow>
             (let s2 = s1\<lparr>sim_rng := rng'\<rparr>;
                  s3 = (if nd_crosses nd then s2\<lparr>state_crosses := state_crosses s2 + 1\<rparr> else s2);
                  (ln, ax') = draw_needle (sim_ax s3) nd L;
                  s4 = s3\<lparr>sim_ax := ax'\<rparr>
              in case estimate_pi (state_crosses s4) (state_i s4) L t of
                   Inl e \<Rightarrow> (s4, Some e)
                 | Inr pi_hat \<Rightarrow>
                     (s4\<lparr>text_pi := Some pi_hat,
                         text_counts := Some (state_i s4, state_crosses s4)\<rparr>, None)))"

text \<open>
  \<^verbatim>\<open>FuncAnimation(fig, update, init_func=init, frames=N, repeat=False)\<close> calls
  \<^verbatim>\<open>update\<close> once for each frame of \<^verbatim>\<open>range(N)\<close>. The model returns the simulation as it
  stands after each call, in order, and the exception that ended the run, if any.
\<close>

fun animate :: "nat \<Rightarrow> real \<Rightarrow> real \<Rightarrow> real \<times> real \<Rightarrow> real \<times> real \<Rightarrow> Sim \<Rightarrow> Sim list \<times> error option" where
  "animate 0 L t xlim ylim s = ([], None)"
| "animate (Suc n) L t xlim ylim s =
     (case update L t xlim ylim s of
        (s', Some e) \<Rightarrow> ([s'], Some e)
      | (s', None) \<Rightarrow> (let (ss, r) = animate n L t xlim ylim s' in (s' # ss, r)))"

text \<open>
  \<^verbatim>\<open>
  def run_simulation(N, speed_ms=15, L=1.0, t=1.0):
      if L > t:
          raise ValueError("Requires L <= t")
      rng = random.Random()
      xlim, ylim = (-3, 3), (-3, 3)
      fig, ax = make_base_figure(xlim, ylim, t, "Buffon's Needle - Monte Carlo Simulation")
      ...
      state = {"i": 0, "crosses": 0}
      ...
      ani = animation.FuncAnimation(...)
      plt.show()
  \<close>
  The fresh generator is a parameter of the model. The message of the exception is
  written with \<open><=\<close> for the source's sign.
\<close>

definition run_simulation :: "int \<Rightarrow> int \<Rightarrow> real \<Rightarrow> real \<Rightarrow> Random \<Rightarrow> Sim list \<times> error option" where
  "run_simulation N speed_ms L t rng =
     (if L > t then ([], Some (ValueError ''Requires L <= t''))
      else let xlim = (- 3, 3); ylim = (- 3, 3)
           in case make_base_figure xlim ylim t ''Buffon's Needle - Monte Carlo Simulation'' of
                Inl e \<Rightarrow> ([], Some e)
              | Inr ax \<Rightarrow>
                  animate (nat N) L t xlim ylim
                    \<lparr>state_i = 0, state_crosses = 0, sim_rng = rng, sim_ax = ax,
                     text_pi = None, text_counts = None\<rparr>)"

subsection \<open>The prompt\<close>

text \<open>
  \<^verbatim>\<open>int(input(...).strip())\<close> on ASCII text: \<^verbatim>\<open>strip\<close> removes the white space at both
  ends; \<^verbatim>\<open>int\<close> accepts one optional sign and then decimal digits, single underscores
  allowed between two digits, and raises \<^verbatim>\<open>ValueError\<close> on anything else (\<open>None\<close> here).
\<close>

definition is_space :: "char \<Rightarrow> bool" where
  "is_space c = (let n = (of_char c :: nat) in (9 \<le> n \<and> n \<le> 13) \<or> (28 \<le> n \<and> n \<le> 32))"

definition strip :: "string \<Rightarrow> string" where
  "strip s = rev (dropWhile is_space (rev (dropWhile is_space s)))"

definition is_digit :: "char \<Rightarrow> bool" where
  "is_digit c = (let n = (of_char c :: nat) in 48 \<le> n \<and> n \<le> 57)"

definition digit_val :: "char \<Rightarrow> int" where
  "digit_val c = int (of_char c) - 48"

fun parse_digits :: "string \<Rightarrow> int \<Rightarrow> int option" where
  "parse_digits [] acc = Some acc"
| "parse_digits (c # cs) acc =
     (if is_digit c then parse_digits cs (10 * acc + digit_val c)
      else if c = CHR ''_'' then
        (case cs of [] \<Rightarrow> None
         | d # ds \<Rightarrow> if is_digit d then parse_digits cs acc else None)
      else None)"

definition py_int :: "string \<Rightarrow> int option" where
  "py_int s =
     (let s0 = strip s;
          (neg, body) =
            (case s0 of
               [] \<Rightarrow> (False, [])
             | c # cs \<Rightarrow> if c = CHR ''-'' then (True, cs)
                         else if c = CHR ''+'' then (False, cs) else (False, s0))
      in case body of
           [] \<Rightarrow> None
         | c # cs \<Rightarrow>
             if is_digit c
             then map_option (\<lambda>n. if neg then - n else n) (parse_digits body 0)
             else None)"

text \<open>
  \<^verbatim>\<open>
  print("Welcome to Buffon's Needle Monte Carlo Simulator!")
  print("Each run will be random and yield a different ... estimate.\n")
  try:
      N = int(input("How many needles should be dropped? ").strip())
  except Exception:
      N = 300
      print("Invalid input. Using default N=300.\n")
  run_simulation(N, speed_ms=10)
  \<close>
  The line typed at the prompt is \<open>Some s\<close>, and \<open>None\<close> when \<^verbatim>\<open>input\<close> itself raises
  (end of input). The result is what was printed, the global \<open>N\<close>, and the run. The Greek
  letter of the second printed line is written \<open>pi\<close>.
\<close>

definition main :: "string option \<Rightarrow> Random \<Rightarrow> string list \<times> int \<times> Sim list \<times> error option" where
  "main inp rng =
     (let out0 = [''Welcome to Buffon's Needle Monte Carlo Simulator!'',
                  ''Each run will be random and yield a different pi estimate.''];
          (N, out) =
            (case (case inp of None \<Rightarrow> None | Some s \<Rightarrow> py_int (strip s)) of
               Some n \<Rightarrow> (n, out0)
             | None \<Rightarrow> (300, out0 @ [''Invalid input. Using default N=300.'']))
      in (out, N, run_simulation N 10 1 1 rng))"

section \<open>Properties\<close>

subsection \<open>Float modulo is the offset from the line below\<close>

lemma trunc_cases: "trunc r = \<lfloor>r\<rfloor> \<or> (r < 0 \<and> of_int \<lfloor>r\<rfloor> \<noteq> r \<and> trunc r = \<lfloor>r\<rfloor> + 1)"
  unfolding trunc_def by (auto simp: ceiling_altdef)

lemma spec_offset_pos: "0 < t \<Longrightarrow> 0 \<le> spec_offset v t \<and> spec_offset v t < t"
proof -
  assume t: "0 < t"
  have a: "of_int \<lfloor>v / t\<rfloor> \<le> v / t" by simp
  have b: "v / t < of_int \<lfloor>v / t\<rfloor> + 1" by linarith
  from a have "of_int \<lfloor>v / t\<rfloor> * t \<le> v" unfolding pos_le_divide_eq[OF t] .
  moreover from b have "v < (of_int \<lfloor>v / t\<rfloor> + 1) * t" unfolding pos_divide_less_eq[OF t] .
  ultimately show ?thesis unfolding spec_offset_def by (simp add: algebra_simps)
qed

lemma spec_offset_neg: "t < 0 \<Longrightarrow> t < spec_offset v t \<and> spec_offset v t \<le> 0"
proof -
  assume t: "t < 0"
  have a: "of_int \<lfloor>v / t\<rfloor> \<le> v / t" by simp
  have b: "v / t < of_int \<lfloor>v / t\<rfloor> + 1" by linarith
  from a have "v \<le> of_int \<lfloor>v / t\<rfloor> * t" unfolding neg_le_divide_eq[OF t] .
  moreover from b have "(of_int \<lfloor>v / t\<rfloor> + 1) * t < v" unfolding neg_divide_less_eq[OF t] .
  ultimately show ?thesis unfolding spec_offset_def by (simp add: algebra_simps)
qed

lemma float_mod_floor: "w \<noteq> 0 \<Longrightarrow> float_mod v w = Inr (spec_offset v w)"
proof -
  assume w: "w \<noteq> 0"
  let ?q = "v / w"
  from trunc_cases[of ?q] show ?thesis
  proof
    assume e: "trunc ?q = \<lfloor>?q\<rfloor>"
    then have m: "fmod v w = spec_offset v w" by (simp add: fmod_def spec_offset_def)
    show ?thesis
    proof (cases "0 < w")
      case True
      from spec_offset_pos[OF True, of v] show ?thesis using w m by (auto simp: float_mod_def Let_def)
    next
      case False
      with w have "w < 0" by simp
      from spec_offset_neg[OF this, of v] show ?thesis using w m \<open>w < 0\<close> by (auto simp: float_mod_def Let_def)
    qed
  next
    assume e: "?q < 0 \<and> of_int \<lfloor>?q\<rfloor> \<noteq> ?q \<and> trunc ?q = \<lfloor>?q\<rfloor> + 1"
    then have m: "fmod v w = spec_offset v w - w" by (simp add: fmod_def spec_offset_def algebra_simps)
    from e w have nz: "spec_offset v w \<noteq> 0" unfolding spec_offset_def
      by (auto simp: field_simps)
    show ?thesis
    proof (cases "0 < w")
      case True
      from spec_offset_pos[OF True, of v] show ?thesis using w m nz by (auto simp: float_mod_def Let_def)
    next
      case False
      with w have "w < 0" by simp
      from spec_offset_neg[OF this, of v] show ?thesis using w m nz \<open>w < 0\<close> by (auto simp: float_mod_def Let_def)
    qed
  qed
qed

subsection \<open>The sampler in closed form\<close>

lemma drop_one_needle_result:
  "t \<noteq> 0 \<Longrightarrow>
   drop_one_needle L t xlim ylim rng =
     (Inr \<lparr>nd_x = fst xlim + L / 2 + (snd xlim - L / 2 - (fst xlim + L / 2)) * rng !! 0,
           nd_y = fst ylim + t / 2 + (snd ylim - t / 2 - (fst ylim + t / 2)) * rng !! 1,
           nd_theta = pi * rng !! 2,
           nd_crosses = spec_crosses L t
              (fst ylim + t / 2 + (snd ylim - t / 2 - (fst ylim + t / 2)) * rng !! 1) (pi * rng !! 2)\<rparr>,
      sdrop 3 rng)"
  by (simp add: drop_one_needle_def uniform_def float_mod_floor spec_crosses_def Let_def numeral_3_eq_3 numeral_2_eq_2)

lemma needle_flag_is_rule:
  assumes "t \<noteq> 0" "drop_one_needle L t xlim ylim rng = (Inr nd, rng')"
  shows "nd_crosses nd = spec_crosses L t (nd_y nd) (nd_theta nd)"
  using assms(2) unfolding drop_one_needle_result[OF assms(1)] by auto

lemma uniform_range:
  fixes a b u :: real
  assumes "a \<le> b" "0 \<le> u" "u < 1"
  shows "a \<le> a + (b - a) * u \<and> a + (b - a) * u \<le> b"
proof -
  have "0 \<le> (b - a) * u" using assms by simp
  moreover have "(b - a) * u \<le> (b - a) * 1"
    using assms by (intro mult_left_mono) simp_all
  ultimately show ?thesis by simp
qed

lemma half_extent:
  fixes L :: real
  assumes "0 \<le> L"
  shows "\<bar>(L / 2) * cos a\<bar> \<le> L / 2" "\<bar>(L / 2) * sin a\<bar> \<le> L / 2"
proof -
  have "\<bar>(L / 2) * cos a\<bar> = (L / 2) * \<bar>cos a\<bar>" using assms by (simp add: abs_mult)
  also have "\<dots> \<le> (L / 2) * 1" using assms by (intro mult_left_mono) simp_all
  finally show "\<bar>(L / 2) * cos a\<bar> \<le> L / 2" by simp
  have "\<bar>(L / 2) * sin a\<bar> = (L / 2) * \<bar>sin a\<bar>" using assms by (simp add: abs_mult)
  also have "\<dots> \<le> (L / 2) * 1" using assms by (intro mult_left_mono) simp_all
  finally show "\<bar>(L / 2) * sin a\<bar> \<le> L / 2" by simp
qed

subsection \<open>The counters along a run\<close>

lemma update_state_i: "state_i (fst (update L t xlim ylim s)) = state_i s + 1"
  by (simp add: update_def Let_def draw_needle_def split: prod.splits sum.splits)

lemma update_state_crosses:
  "state_crosses (fst (update L t xlim ylim s)) = state_crosses s \<or>
   state_crosses (fst (update L t xlim ylim s)) = state_crosses s + 1"
  by (simp add: update_def Let_def draw_needle_def split: prod.splits sum.splits)

lemma estimate_pi_ok: "t \<noteq> 0 \<Longrightarrow> \<exists>v. estimate_pi c n L t = Inr v"
  by (simp add: estimate_pi_def)

lemma update_ok: "t \<noteq> 0 \<Longrightarrow> snd (update L t xlim ylim s) = None"
proof -
  assume t: "t \<noteq> 0"
  show ?thesis
    unfolding update_def Let_def drop_one_needle_result[OF t]
    using t by (simp add: draw_needle_def estimate_pi_def Let_def)
qed

lemma animate_ok:
  "t \<noteq> 0 \<Longrightarrow> length (fst (animate n L t xlim ylim s)) = n \<and> snd (animate n L t xlim ylim s) = None"
proof (induction n arbitrary: s)
  case 0
  then show ?case by simp
next
  case (Suc n)
  obtain s' e where u: "update L t xlim ylim s = (s', e)" by (cases "update L t xlim ylim s")
  with update_ok[OF Suc.prems, of L xlim ylim s] have e: "e = None" by simp
  obtain ss r where a: "animate n L t xlim ylim s' = (ss, r)" by (cases "animate n L t xlim ylim s'")
  from Suc.IH[OF Suc.prems, of s'] show ?case
    by (simp add: u e a)
qed

lemma animate_steps:
  "k < length (fst (animate n L t xlim ylim s)) \<Longrightarrow>
   state_i (fst (animate n L t xlim ylim s) ! k) = state_i ((s # fst (animate n L t xlim ylim s)) ! k) + 1 \<and>
   (state_crosses (fst (animate n L t xlim ylim s) ! k) = state_crosses ((s # fst (animate n L t xlim ylim s)) ! k) \<or>
    state_crosses (fst (animate n L t xlim ylim s) ! k) = state_crosses ((s # fst (animate n L t xlim ylim s)) ! k) + 1)"
proof (induction n arbitrary: s k)
  case 0
  then show ?case by simp
next
  case (Suc n)
  obtain s' e where u: "update L t xlim ylim s = (s', e)" by (cases "update L t xlim ylim s")
  from update_state_i[of L t xlim ylim s] update_state_crosses[of L t xlim ylim s] u
  have st: "state_i s' = state_i s + 1"
    "state_crosses s' = state_crosses s \<or> state_crosses s' = state_crosses s + 1" by simp_all
  show ?case
  proof (cases e)
    case (Some err)
    with Suc.prems u have "k = 0" by simp
    with st u Some show ?thesis by simp
  next
    case None
    obtain ss r where a: "animate n L t xlim ylim s' = (ss, r)" by (cases "animate n L t xlim ylim s'")
    have tr: "fst (animate (Suc n) L t xlim ylim s) = s' # ss" using u None a by simp
    show ?thesis
    proof (cases k)
      case 0
      with st tr show ?thesis by simp
    next
      case (Suc j)
      with Suc.prems tr have "j < length (fst (animate n L t xlim ylim s'))" using a by simp
      from Suc.IH[OF this] show ?thesis using tr a Suc by simp
    qed
  qed
qed

lemma animate_counters:
  "k < length (fst (animate n L t xlim ylim s)) \<Longrightarrow>
   state_i (fst (animate n L t xlim ylim s) ! k) = state_i s + int k + 1 \<and>
   state_crosses s \<le> state_crosses (fst (animate n L t xlim ylim s) ! k) \<and>
   state_crosses (fst (animate n L t xlim ylim s) ! k) \<le> state_crosses s + int k + 1"
proof (induction k)
  case 0
  from animate_steps[OF 0] show ?case by auto
next
  case (Suc k)
  then have "k < length (fst (animate n L t xlim ylim s))" by simp
  from Suc.IH[OF this] animate_steps[OF Suc.prems] show ?case by auto
qed

lemma run_simulation_trace:
  "fst (run_simulation N speed_ms L t rng) = [] \<or>
   (\<exists>ax. fst (run_simulation N speed_ms L t rng) =
      fst (animate (nat N) L t (- 3, 3) (- 3, 3)
        \<lparr>state_i = 0, state_crosses = 0, sim_rng = rng, sim_ax = ax,
         text_pi = None, text_counts = None\<rparr>))"
  unfolding run_simulation_def Let_def by (auto split: sum.splits)

lemma run_simulation_ok:
  "L \<le> t \<Longrightarrow> t \<noteq> 0 \<Longrightarrow>
   length (fst (run_simulation N speed_ms L t rng)) = nat N \<and>
   snd (run_simulation N speed_ms L t rng) = None"
  by (simp add: run_simulation_def Let_def make_base_figure_def animate_ok)

subsection \<open>Claims\<close>

text \<open>
  C1. For a needle length and a spacing with \<open>0 < L \<le> t\<close> the sampler returns a needle,
  and its crossing flag is true exactly when \<open>(L/2) sin theta\<close> is at least the smaller of
  \<open>y mod t\<close> and \<open>t - y mod t\<close>, for the centre \<open>y\<close> and the orientation \<open>theta\<close> of
  that needle; equality counts as a crossing (\<open>spec_crosses\<close> is stated with \<open>\<ge>\<close>).
  Every centre and every orientation is that of the needle of some call.
\<close>

theorem drop_one_needle_crosses_iff:
  "0 < L \<Longrightarrow> L \<le> t \<Longrightarrow>
   (\<exists>nd rng'. drop_one_needle L t xlim ylim rng = (Inr nd, rng') \<and>
      (nd_crosses nd \<longleftrightarrow> spec_crosses L t (nd_y nd) (nd_theta nd))) \<and>
   (\<exists>ylim0 rng0 nd. fst (drop_one_needle L t xlim ylim0 rng0) = Inr nd \<and>
      nd_y nd = y0 \<and> nd_theta nd = theta0 \<and>
      (nd_crosses nd \<longleftrightarrow> spec_crosses L t y0 theta0))"
proof (intro conjI)
  assume "0 < L" "L \<le> t"
  then have t: "t \<noteq> 0" by simp
  show "\<exists>nd rng'. drop_one_needle L t xlim ylim rng = (Inr nd, rng') \<and>
      (nd_crosses nd \<longleftrightarrow> spec_crosses L t (nd_y nd) (nd_theta nd))"
    by (simp add: drop_one_needle_result[OF t])
  show "\<exists>ylim0 rng0 nd. fst (drop_one_needle L t xlim ylim0 rng0) = Inr nd \<and>
      nd_y nd = y0 \<and> nd_theta nd = theta0 \<and>
      (nd_crosses nd \<longleftrightarrow> spec_crosses L t y0 theta0)"
    by (rule exI[of _ "(y0 - t / 2, y0 + t / 2)"], rule exI[of _ "sconst (theta0 / pi)"])
       (simp add: drop_one_needle_result[OF t])
qed

theorem drop_one_needle_crosses_iff_witness:
  "(0::real) < 1 \<and> (1::real) \<le> 1 \<and>
   (\<exists>nd rng'. drop_one_needle 1 1 (- 3, 3) (- 3, 3) (sconst (1 / 2)) = (Inr nd, rng') \<and>
     (nd_crosses nd \<longleftrightarrow> spec_crosses 1 1 (nd_y nd) (nd_theta nd)))"
  using drop_one_needle_crosses_iff [of 1 1 "(- 3, 3)" "(- 3, 3)" "sconst (1 / 2)" 0 0] by simp

text \<open>
  C2. With a positive number of crossings and a positive spacing the estimator returns
  exactly \<open>(2 * L * trials) / (crossings * t)\<close>.
\<close>

theorem estimate_pi_formula:
  "0 < crossings \<Longrightarrow> 0 < t \<Longrightarrow>
   estimate_pi crossings trials L t =
     Inr (Finite ((2 * L * of_int trials) / (of_int crossings * t)))"
  by (simp add: estimate_pi_def)

theorem estimate_pi_formula_witness:
  "(0::int) < 2 \<and> (0::real) < 1 \<and> estimate_pi 2 3 1 1 = Inr (Finite 3)"
  using estimate_pi_formula [of 2 1 3 1] by simp

text \<open>
  C3. With no crossing the estimator returns the infinite sentinel and raises nothing,
  whatever the number of trials (zero included), the length and the spacing.
\<close>

theorem estimate_pi_zero_crossings: "estimate_pi 0 trials L t = Inr PosInf"
  by (simp add: estimate_pi_def)

text \<open>
  C4. With \<open>L > t\<close> the driver ends with the configuration error and an empty trace: no
  call of \<open>update\<close> was made, so no needle was drawn, no counter changed and the estimator
  was not called.
\<close>

theorem run_simulation_config_error:
  "L > t \<Longrightarrow>
   run_simulation N speed_ms L t rng = ([], Some (ValueError ''Requires L <= t''))"
  by (simp add: run_simulation_def)

theorem run_simulation_config_error_witness:
  "(2::real) > 1 \<and>
   run_simulation 5 10 2 1 (sconst 0) = ([], Some (ValueError ''Requires L <= t''))"
  using run_simulation_config_error [of 1 2 5 10 "sconst 0"] by simp

text \<open>
  C8. For \<open>0 < L \<le> t\<close> and a region at least \<open>L\<close> wide and \<open>t\<close> high, the needle the
  sampler returns has its centre in the padded region, and both endpoints that
  \<open>draw_needle\<close> plots lie inside the region.
\<close>

theorem needle_inside_region:
  assumes "0 < L" "L \<le> t"
    and "snd xlim - fst xlim \<ge> L" "snd ylim - fst ylim \<ge> t"
    and "well_formed_rng rng"
  shows "\<exists>nd rng'. drop_one_needle L t xlim ylim rng = (Inr nd, rng') \<and>
           fst xlim + L / 2 \<le> nd_x nd \<and> nd_x nd \<le> snd xlim - L / 2 \<and>
           fst ylim + t / 2 \<le> nd_y nd \<and> nd_y nd \<le> snd ylim - t / 2 \<and>
           (\<forall>v \<in> set (xdata (fst (draw_needle ax nd L))). fst xlim \<le> v \<and> v \<le> snd xlim) \<and>
           (\<forall>v \<in> set (ydata (fst (draw_needle ax nd L))). fst ylim \<le> v \<and> v \<le> snd ylim)"
proof -
  from assms have t: "t \<noteq> 0" and L0: "0 \<le> L" by simp_all
  let ?x = "fst xlim + L / 2 + (snd xlim - L / 2 - (fst xlim + L / 2)) * rng !! 0"
  let ?y = "fst ylim + t / 2 + (snd ylim - t / 2 - (fst ylim + t / 2)) * rng !! 1"
  from assms(5) have u: "0 \<le> rng !! 0" "rng !! 0 < 1" "0 \<le> rng !! 1" "rng !! 1 < 1"
    unfolding well_formed_rng_def by blast+
  have x: "fst xlim + L / 2 \<le> ?x \<and> ?x \<le> snd xlim - L / 2"
    using assms(3) u(1,2) by (intro uniform_range) simp_all
  have y: "fst ylim + t / 2 \<le> ?y \<and> ?y \<le> snd ylim - t / 2"
    using assms(4) u(3,4) by (intro uniform_range) simp_all
  from half_extent[OF L0, of "pi * rng !! 2"]
  have c: "\<bar>(L / 2) * cos (pi * rng !! 2)\<bar> \<le> L / 2" and s: "\<bar>(L / 2) * sin (pi * rng !! 2)\<bar> \<le> L / 2"
    by simp_all
  show ?thesis
    unfolding drop_one_needle_result[OF t] draw_needle_def Let_def
    using x y c s assms(2) by (simp del: snth.simps) linarith
qed

theorem needle_inside_region_witness:
  "(0::real) < 1 \<and> (1::real) \<le> 1 \<and> well_formed_rng (sconst (1 / 2)) \<and>
   (\<exists>nd rng'. drop_one_needle 1 1 (- 3, 3) (- 3, 3) (sconst (1 / 2)) = (Inr nd, rng') \<and>
      - 3 + 1 / 2 \<le> nd_x nd \<and> nd_x nd \<le> 3 - 1 / 2 \<and>
      - 3 + 1 / 2 \<le> nd_y nd \<and> nd_y nd \<le> 3 - 1 / 2 \<and>
      (\<forall>v \<in> set (xdata (fst (draw_needle
          \<lparr>ax_xlim = (- 3, 3), ax_ylim = (- 3, 3), ax_title = [], ax_hlines = [], ax_lines = []\<rparr>
          nd 1))). - 3 \<le> v \<and> v \<le> 3) \<and>
      (\<forall>v \<in> set (ydata (fst (draw_needle
          \<lparr>ax_xlim = (- 3, 3), ax_ylim = (- 3, 3), ax_title = [], ax_hlines = [], ax_lines = []\<rparr>
          nd 1))). - 3 \<le> v \<and> v \<le> 3))"
proof -
  have w: "well_formed_rng (sconst (1 / 2))"
    by (simp add: well_formed_rng_def)
  from needle_inside_region [of 1 1 "(- 3, 3)" "(- 3, 3)" "sconst (1 / 2)"
      "\<lparr>ax_xlim = (- 3, 3), ax_ylim = (- 3, 3), ax_title = [], ax_hlines = [], ax_lines = []\<rparr>"] w
  show ?thesis by simp
qed

text \<open>
  C5. Every call of \<open>update\<close> adds exactly one to the trial counter and zero or one to the
  crossing counter. Along a run the counters start from zero: after the \<open>k\<close>-th call
  (counting from \<open>0\<close>) the trial counter is \<open>k + 1\<close>, the crossing counter lies between
  zero and the trial counter, and it exceeds its previous value (zero before the first
  call) by zero or one.
\<close>

theorem simulation_counters:
  "(state_i (fst (update L t xlim ylim s)) = state_i s + 1 \<and>
    (state_crosses (fst (update L t xlim ylim s)) = state_crosses s \<or>
     state_crosses (fst (update L t xlim ylim s)) = state_crosses s + 1)) \<and>
   (\<forall>k < length (fst (run_simulation N speed_ms L t rng)).
      state_i (fst (run_simulation N speed_ms L t rng) ! k) = int k + 1 \<and>
      0 \<le> state_crosses (fst (run_simulation N speed_ms L t rng) ! k) \<and>
      state_crosses (fst (run_simulation N speed_ms L t rng) ! k)
        \<le> state_i (fst (run_simulation N speed_ms L t rng) ! k) \<and>
      (state_crosses (fst (run_simulation N speed_ms L t rng) ! k) =
         (if k = 0 then 0 else state_crosses (fst (run_simulation N speed_ms L t rng) ! (k - 1))) \<or>
       state_crosses (fst (run_simulation N speed_ms L t rng) ! k) =
         (if k = 0 then 0 else state_crosses (fst (run_simulation N speed_ms L t rng) ! (k - 1))) + 1))"
proof (intro conjI allI impI)
  show "state_i (fst (update L t xlim ylim s)) = state_i s + 1"
    by (rule update_state_i)
  show "state_crosses (fst (update L t xlim ylim s)) = state_crosses s \<or>
     state_crosses (fst (update L t xlim ylim s)) = state_crosses s + 1"
    by (rule update_state_crosses)
next
  fix k
  let ?tr = "fst (run_simulation N speed_ms L t rng)"
  assume k: "k < length ?tr"
  then have "?tr \<noteq> []" by auto
  with run_simulation_trace[of N speed_ms L t rng] obtain ax where
    tr: "?tr = fst (animate (nat N) L t (- 3, 3) (- 3, 3)
        \<lparr>state_i = 0, state_crosses = 0, sim_rng = rng, sim_ax = ax,
         text_pi = None, text_counts = None\<rparr>)" by auto
  from k animate_counters[of k "nat N" L t "(- 3, 3)" "(- 3, 3)"
        "\<lparr>state_i = 0, state_crosses = 0, sim_rng = rng, sim_ax = ax,
         text_pi = None, text_counts = None\<rparr>"]
  have c: "state_i (?tr ! k) = int k + 1 \<and> 0 \<le> state_crosses (?tr ! k) \<and>
      state_crosses (?tr ! k) \<le> int k + 1"
    unfolding tr by simp
  from k animate_steps[of k "nat N" L t "(- 3, 3)" "(- 3, 3)"
        "\<lparr>state_i = 0, state_crosses = 0, sim_rng = rng, sim_ax = ax,
         text_pi = None, text_counts = None\<rparr>"]
  have d: "state_crosses (?tr ! k) = (if k = 0 then 0 else state_crosses (?tr ! (k - 1))) \<or>
       state_crosses (?tr ! k) = (if k = 0 then 0 else state_crosses (?tr ! (k - 1))) + 1"
    unfolding tr by (cases k) simp_all
  from c show "state_i (?tr ! k) = int k + 1" by simp
  from c show "0 \<le> state_crosses (?tr ! k)" by simp
  from c show "state_crosses (?tr ! k) \<le> state_i (?tr ! k)" by simp
  from d show "state_crosses (?tr ! k) = (if k = 0 then 0 else state_crosses (?tr ! (k - 1))) \<or>
       state_crosses (?tr ! k) = (if k = 0 then 0 else state_crosses (?tr ! (k - 1))) + 1" .
qed

theorem simulation_counters_witness:
  "(0::nat) < length (fst (run_simulation 2 10 1 1 (sconst (1 / 2)))) \<and>
   (1::nat) < length (fst (run_simulation 2 10 1 1 (sconst (1 / 2)))) \<and>
   state_i (fst (run_simulation 2 10 1 1 (sconst (1 / 2))) ! 0) = 1 \<and>
   state_i (fst (run_simulation 2 10 1 1 (sconst (1 / 2))) ! 1) = 2 \<and>
   state_crosses (fst (run_simulation 2 10 1 1 (sconst (1 / 2))) ! 1)
     \<le> state_i (fst (run_simulation 2 10 1 1 (sconst (1 / 2))) ! 1)"
proof -
  have len: "length (fst (run_simulation 2 10 1 1 (sconst (1 / 2)))) = 2"
    using run_simulation_ok [of 1 1 2 10 "sconst (1 / 2)"] by simp
  from simulation_counters [of 1 1 _ _ _ 2 10 "sconst (1 / 2)"]
  have a: "\<forall>k < length (fst (run_simulation 2 10 1 1 (sconst (1 / 2)))).
      state_i (fst (run_simulation 2 10 1 1 (sconst (1 / 2))) ! k) = int k + 1 \<and>
      state_crosses (fst (run_simulation 2 10 1 1 (sconst (1 / 2))) ! k)
        \<le> state_i (fst (run_simulation 2 10 1 1 (sconst (1 / 2))) ! k)"
    by blast
  from a [rule_format, of 0] a [rule_format, of 1] len show ?thesis by simp
qed




text \<open>
  C7, as amended. With orientation \<open>theta = pi/2\<close> and \<open>L = t > 0\<close> the sampled needle
  crosses wherever its centre is.
\<close>

theorem vertical_full_length_always_crosses:
  assumes "0 < t" "drop_one_needle t t xlim ylim rng = (Inr nd, rng')" "nd_theta nd = pi / 2"
  shows "nd_crosses nd"
proof -
  from assms(1) have t: "t \<noteq> 0" by simp
  have c: "nd_crosses nd = spec_crosses t t (nd_y nd) (pi / 2)"
    using needle_flag_is_rule[OF t assms(2)] assms(3) by simp
  from spec_offset_pos[OF assms(1), of "nd_y nd"] show ?thesis
    unfolding c spec_crosses_def by (auto simp: min_def)
qed

theorem vertical_full_length_always_crosses_witness:
  "(0::real) < 1 \<and>
   drop_one_needle 1 1 (- 3, 3) (- 3, 3) (0 ## (1 / 2) ## sconst (1 / 2))
     = (Inr \<lparr>nd_x = - 5 / 2, nd_y = 0, nd_theta = pi / 2, nd_crosses = True\<rparr>, sconst (1 / 2)) \<and>
   nd_theta \<lparr>nd_x = - 5 / 2, nd_y = 0, nd_theta = pi / 2, nd_crosses = True\<rparr> = pi / 2 \<and>
   nd_crosses \<lparr>nd_x = - 5 / 2, nd_y = 0, nd_theta = pi / 2, nd_crosses = True\<rparr>"
proof -
  have d: "drop_one_needle 1 1 (- 3, 3) (- 3, 3) (0 ## (1 / 2) ## sconst (1 / 2))
     = (Inr \<lparr>nd_x = - 5 / 2, nd_y = 0, nd_theta = pi / 2, nd_crosses = True\<rparr>, sconst (1 / 2))"
    by (simp add: drop_one_needle_def uniform_def float_mod_def fmod_def trunc_def Let_def)
  from vertical_full_length_always_crosses [OF _ d] d show ?thesis by simp
qed

text \<open>
  C7 as stated fails: with \<open>L = t = 1\<close> and the draws \<open>0, 1/4, 1/2\<close> the centre is
  \<open>y = -5/4\<close>, where \<open>y % t = 3/4\<close> is not zero, the orientation is \<open>pi/2\<close>, and the
  flag is true.
\<close>

theorem vertical_full_length_counterexample:
  "fst (drop_one_needle 1 1 (- 3, 3) (- 3, 3) (0 ## (1 / 4) ## sconst (1 / 2)))
     = Inr \<lparr>nd_x = - 5 / 2, nd_y = - 5 / 4, nd_theta = pi / 2, nd_crosses = True\<rparr> \<and>
   float_mod (- 5 / 4) 1 = Inr (3 / 4)"
  by (simp add: drop_one_needle_def uniform_def float_mod_def fmod_def trunc_def Let_def)

text \<open>
  C9, as amended. When the prompt gives no text that \<^verbatim>\<open>int\<close> parses, the program prints
  the diagnostic, sets \<open>N = 300\<close> and the run makes its \<open>300\<close> calls of \<open>update\<close> without
  an exception. When the text parses to an integer \<open>n\<close>, positive or not, no diagnostic is
  printed, \<open>N = n\<close>, and the run makes \<open>nat n\<close> calls without an exception.
\<close>

theorem main_fallback:
  "((case inp of None \<Rightarrow> None | Some s \<Rightarrow> py_int (strip s)) = None \<longrightarrow>
      fst (main inp rng) =
        [''Welcome to Buffon's Needle Monte Carlo Simulator!'',
         ''Each run will be random and yield a different pi estimate.'',
         ''Invalid input. Using default N=300.''] \<and>
      fst (snd (main inp rng)) = 300 \<and>
      length (fst (snd (snd (main inp rng)))) = 300 \<and>
      snd (snd (snd (main inp rng))) = None) \<and>
   ((case inp of None \<Rightarrow> None | Some s \<Rightarrow> py_int (strip s)) = Some n \<longrightarrow>
      fst (main inp rng) =
        [''Welcome to Buffon's Needle Monte Carlo Simulator!'',
         ''Each run will be random and yield a different pi estimate.''] \<and>
      fst (snd (main inp rng)) = n \<and>
      length (fst (snd (snd (main inp rng)))) = nat n \<and>
      snd (snd (snd (main inp rng))) = None)"
  using run_simulation_ok [of 1 1 300 10 rng] run_simulation_ok [of 1 1 n 10 rng]
  by (simp add: main_def Let_def)

theorem main_fallback_witness:
  "(case Some ''abc'' of None \<Rightarrow> None | Some s \<Rightarrow> py_int (strip s)) = None \<and>
   fst (snd (main (Some ''abc'') (sconst 0))) = 300 \<and>
   length (fst (snd (snd (main (Some ''abc'') (sconst 0))))) = 300 \<and>
   snd (snd (snd (main (Some ''abc'') (sconst 0)))) = None \<and>
   (case Some ''-5'' of None \<Rightarrow> None | Some s \<Rightarrow> py_int (strip s)) = Some (- 5) \<and>
   fst (snd (main (Some ''-5'') (sconst 0))) = - 5 \<and>
   length (fst (snd (snd (main (Some ''-5'') (sconst 0))))) = 0"
proof -
  have a: "py_int (strip ''abc'') = None"
    by (simp add: py_int_def strip_def is_space_def is_digit_def digit_val_def)
  have b: "py_int (strip ''-5'') = Some (- 5)"
    by (simp add: py_int_def strip_def is_space_def is_digit_def digit_val_def)
  from main_fallback [of "Some ''abc''" "sconst 0" 0] main_fallback [of "Some ''-5''" "sconst 0" "- 5"] a b
  show ?thesis by simp
qed

text \<open>
  C9 as stated fails: the text \<open>0\<close> is not a positive integer, yet no diagnostic is
  printed, \<open>N\<close> is \<open>0\<close> and not \<open>300\<close>, and the run drops no needle.
\<close>

theorem main_fallback_counterexample:
  "main (Some ''0'') (sconst 0) =
     ([''Welcome to Buffon's Needle Monte Carlo Simulator!'',
       ''Each run will be random and yield a different pi estimate.''], 0, [], None)"
  by (simp add: main_def py_int_def strip_def is_space_def is_digit_def digit_val_def
      run_simulation_def make_base_figure_def Let_def)

text \<open>
  C10, as amended. The sampler never raises the configuration error; called with
  \<open>L > t\<close> and a spacing other than zero it returns a needle; at spacing zero the modulo
  raises \<^verbatim>\<open>ZeroDivisionError\<close>, whatever \<open>L\<close>; the driver called with \<open>L > t\<close> ends
  with the configuration error.
\<close>

theorem sampler_has_no_validation:
  "(\<forall>msg. fst (drop_one_needle L t xlim ylim rng) \<noteq> Inl (ValueError msg)) \<and>
   (L > t \<longrightarrow> t \<noteq> 0 \<longrightarrow> (\<exists>nd. fst (drop_one_needle L t xlim ylim rng) = Inr nd)) \<and>
   (t = 0 \<longrightarrow> fst (drop_one_needle L t xlim ylim rng) = Inl ZeroDivisionError) \<and>
   (L > t \<longrightarrow> snd (run_simulation N speed_ms L t rng) = Some (ValueError ''Requires L <= t''))"
proof (intro conjI allI impI)
  fix msg
  show "fst (drop_one_needle L t xlim ylim rng) \<noteq> Inl (ValueError msg)"
    by (cases "t = 0") (simp_all add: drop_one_needle_result, simp add: drop_one_needle_def uniform_def float_mod_def Let_def)
next
  assume "t \<noteq> 0"
  then show "\<exists>nd. fst (drop_one_needle L t xlim ylim rng) = Inr nd"
    by (simp add: drop_one_needle_result)
next
  assume "t = 0"
  then show "fst (drop_one_needle L t xlim ylim rng) = Inl ZeroDivisionError"
    by (simp add: drop_one_needle_def uniform_def float_mod_def Let_def)
next
  assume "L > t"
  then show "snd (run_simulation N speed_ms L t rng) = Some (ValueError ''Requires L <= t'')"
    by (simp add: run_simulation_def)
qed

theorem sampler_has_no_validation_witness:
  "(2::real) > 1 \<and> (1::real) \<noteq> 0 \<and>
   (\<exists>nd. fst (drop_one_needle 2 1 (- 3, 3) (- 3, 3) (sconst (1 / 2))) = Inr nd) \<and>
   snd (run_simulation 5 10 2 1 (sconst (1 / 2))) = Some (ValueError ''Requires L <= t'') \<and>
   (0::real) = 0 \<and>
   fst (drop_one_needle 2 0 (- 3, 3) (- 3, 3) (sconst (1 / 2))) = Inl ZeroDivisionError"
  using sampler_has_no_validation [of 2 1 "(- 3, 3)" "(- 3, 3)" "sconst (1 / 2)" 5 10]
    sampler_has_no_validation [of 2 0 "(- 3, 3)" "(- 3, 3)" "sconst (1 / 2)" 5 10] by simp

text \<open>
  C10 as stated fails: with \<open>L = 1 > t = 0\<close> the sampler returns no needle, the modulo
  raises \<^verbatim>\<open>ZeroDivisionError\<close>.
\<close>

theorem sampler_zero_spacing_counterexample:
  "(1::real) > 0 \<and>
   fst (drop_one_needle 1 0 (- 3, 3) (- 3, 3) (sconst 0)) = Inl ZeroDivisionError"
  by (simp add: drop_one_needle_def uniform_def float_mod_def Let_def)

end
